theory Spec2Isabelle
  imports Complex_Main "HOL-Library.Multiset"
begin

section \<open>Floating-point values with missing data\<close>

text \<open>
  The screener works on pandas series of 64-bit floats. What its results depend on is
  the special values: a missing entry (NaN), and the infinities that a division by zero
  produces. A value is therefore a finite number, an infinity or NaN. Finite numbers are
  reals: rounding is not modelled, and the two signed zeros are one value. The
  operations follow IEEE 754 on the special values: NaN propagates, every comparison
  with NaN is false, a nonzero finite number divided by zero is an infinity, and zero
  divided by zero is NaN. numpy and pandas do not raise on any of them.
\<close>

datatype fl = Fin real | PInf | NInf | NaN

fun fl_neg :: "fl \<Rightarrow> fl" where
  "fl_neg (Fin a) = Fin (- a)"
| "fl_neg PInf = NInf"
| "fl_neg NInf = PInf"
| "fl_neg NaN = NaN"

fun fl_add :: "fl \<Rightarrow> fl \<Rightarrow> fl" where
  "fl_add NaN _ = NaN"
| "fl_add _ NaN = NaN"
| "fl_add (Fin a) (Fin b) = Fin (a + b)"
| "fl_add PInf NInf = NaN"
| "fl_add NInf PInf = NaN"
| "fl_add PInf _ = PInf"
| "fl_add NInf _ = NInf"
| "fl_add (Fin a) PInf = PInf"
| "fl_add (Fin a) NInf = NInf"

definition fl_sub :: "fl \<Rightarrow> fl \<Rightarrow> fl" where
  "fl_sub a b = fl_add a (fl_neg b)"

fun fl_div :: "fl \<Rightarrow> fl \<Rightarrow> fl" where
  "fl_div NaN _ = NaN"
| "fl_div _ NaN = NaN"
| "fl_div (Fin a) (Fin b) =
     (if b \<noteq> 0 then Fin (a / b)
      else if 0 < a then PInf
      else if a < 0 then NInf
      else NaN)"
| "fl_div (Fin a) PInf = Fin 0"
| "fl_div (Fin a) NInf = Fin 0"
| "fl_div PInf (Fin b) = (if 0 \<le> b then PInf else NInf)"
| "fl_div NInf (Fin b) = (if 0 \<le> b then NInf else PInf)"
| "fl_div PInf _ = NaN"
| "fl_div NInf _ = NaN"

fun fl_less :: "fl \<Rightarrow> fl \<Rightarrow> bool" where
  "fl_less NaN _ = False"
| "fl_less _ NaN = False"
| "fl_less (Fin a) (Fin b) = (a < b)"
| "fl_less (Fin a) PInf = True"
| "fl_less NInf (Fin b) = True"
| "fl_less NInf PInf = True"
| "fl_less _ _ = False"

text \<open>The Python expression \<open>a > b\<close> on two floats.\<close>

definition fl_gt :: "fl \<Rightarrow> fl \<Rightarrow> bool" where
  "fl_gt a b = fl_less b a"

section \<open>The pandas operations the screener calls\<close>

text \<open>
  A price or volume column holds finite numbers (\<open>real list\<close>); a derived series may
  hold NaN (\<open>fl list\<close>). All series of one frame have the same length and are aligned
  by position.
\<close>

text \<open>\<open>Series.diff()\<close>: NaN at position 0, then the difference to the previous entry.\<close>

fun diff :: "real list \<Rightarrow> fl list" where
  "diff [] = []"
| "diff (x # xs) = NaN # map2 (\<lambda>a b. Fin (b - a)) (x # xs) xs"

text \<open>
  \<open>s.where(cond, other)\<close> keeps an entry where the condition is true and writes
  \<open>other\<close> everywhere else, also where the entry is NaN (the comparison is false there).
\<close>

definition series_where :: "(fl \<Rightarrow> bool) \<Rightarrow> fl \<Rightarrow> fl list \<Rightarrow> fl list" where
  "series_where cond other s = map (\<lambda>x. if cond x then x else other) s"

fun fin_sum :: "fl list \<Rightarrow> real option" where
  "fin_sum [] = Some 0"
| "fin_sum (Fin a # ys) = map_option (\<lambda>s. a + s) (fin_sum ys)"
| "fin_sum (_ # ys) = None"

text \<open>
  The mean of one full window: NaN when the window holds a missing entry. The series
  averaged by this program hold no infinities; a window with one is given NaN here.
\<close>

definition window_mean :: "nat \<Rightarrow> fl list \<Rightarrow> fl" where
  "window_mean w ys =
     (if w = 0 \<or> length ys \<noteq> w then NaN
      else case fin_sum ys of None \<Rightarrow> NaN | Some s \<Rightarrow> Fin (s / real w))"

text \<open>
  \<open>s.rolling(window=w).mean()\<close> with the default \<open>min_periods = w\<close>: at position
  \<open>i\<close> the mean of the \<open>w\<close> entries ending at \<open>i\<close>, and NaN while fewer than \<open>w\<close>
  entries are available. The window is a natural number (pandas refuses a negative one).
\<close>

definition rolling_mean :: "nat \<Rightarrow> fl list \<Rightarrow> fl list" where
  "rolling_mean w s =
     map (\<lambda>i. if i + 1 < w then NaN else window_mean w (take w (drop (i + 1 - w) s)))
       [0..<length s]"

section \<open>Relative Strength Index\<close>

definition rsi_gain :: "real list \<Rightarrow> nat \<Rightarrow> fl list" where
  "rsi_gain prices period =
     rolling_mean period (series_where (\<lambda>d. fl_gt d (Fin 0)) (Fin 0) (diff prices))"

definition rsi_loss :: "real list \<Rightarrow> nat \<Rightarrow> fl list" where
  "rsi_loss prices period =
     rolling_mean period (map fl_neg (series_where (\<lambda>d. fl_less d (Fin 0)) (Fin 0) (diff prices)))"

definition calculate_rsi :: "real list \<Rightarrow> nat \<Rightarrow> fl list" where
  "calculate_rsi prices period =
     (let gain = rsi_gain prices period;
          loss = rsi_loss prices period;
          rs = map2 fl_div gain loss
      in map (\<lambda>r. fl_sub (Fin 100) (fl_div (Fin 100) (fl_add (Fin 1) r))) rs)"

section \<open>Exponentially weighted mean and MACD\<close>

datatype error = ValueError | IndexError

definition bind_err :: "error + 'a \<Rightarrow> ('a \<Rightarrow> error + 'b) \<Rightarrow> error + 'b" where
  "bind_err m f = (case m of Inl e \<Rightarrow> Inl e | Inr x \<Rightarrow> f x)"

text \<open>
  \<open>s.ewm(span=n).mean()\<close> with the pandas defaults (\<open>adjust=True\<close>, no missing
  input). pandas keeps the running mean \<open>weighted\<close> and the total weight \<open>old_wt\<close> of
  the entries seen so far; each new entry has weight 1 and every older weight is
  multiplied by \<open>1 - alpha\<close>.
\<close>

fun ewm_loop :: "real \<Rightarrow> real \<Rightarrow> real \<Rightarrow> real list \<Rightarrow> real list" where
  "ewm_loop alpha weighted old_wt [] = []"
| "ewm_loop alpha weighted old_wt (cur # xs) =
     (let ow = old_wt * (1 - alpha);
          weighted' = (ow * weighted + cur) / (ow + 1)
      in weighted' # ewm_loop alpha weighted' (ow + 1) xs)"

definition ewm_values :: "real \<Rightarrow> real list \<Rightarrow> real list" where
  "ewm_values alpha s = (case s of [] \<Rightarrow> [] | x # xs \<Rightarrow> x # ewm_loop alpha x 1 xs)"

text \<open>pandas refuses a span below 1 (\<open>ValueError: span must satisfy: span >= 1\<close>).\<close>

definition ewm_mean :: "real \<Rightarrow> real list \<Rightarrow> error + real list" where
  "ewm_mean spn s =
     (if spn < 1 then Inl ValueError else Inr (ewm_values (2 / (spn + 1)) s))"

text \<open>
  The formula of the pandas documentation for \<open>adjust=True\<close>: the entries seen so
  far, the newest with weight 1 and each older one with \<open>1 - alpha\<close> times the weight
  of its successor, divided by the sum of these weights. \<open>wsum q\<close> takes the entries
  newest first.
\<close>

fun wsum :: "real \<Rightarrow> real list \<Rightarrow> real" where
  "wsum q [] = 0"
| "wsum q (x # xs) = x + q * wsum q xs"

definition ewm_formula :: "real \<Rightarrow> real list \<Rightarrow> nat \<Rightarrow> real" where
  "ewm_formula alpha s i =
     wsum (1 - alpha) (rev (take (Suc i) s)) / wsum (1 - alpha) (replicate (Suc i) 1)"

text \<open>
  The recurrence of the unadjusted mean (\<open>adjust=False\<close>), which the screener does
  not call: the first value is the first entry, and each later value is
  \<open>alpha * x + (1 - alpha) * previous\<close>.
\<close>

fun ema_recurrence :: "real \<Rightarrow> real \<Rightarrow> real list \<Rightarrow> real list" where
  "ema_recurrence alpha prev [] = []"
| "ema_recurrence alpha prev (x # xs) =
     (let y = alpha * x + (1 - alpha) * prev in y # ema_recurrence alpha y xs)"

definition unadjusted_mean :: "real \<Rightarrow> real list \<Rightarrow> real list" where
  "unadjusted_mean alpha s = (case s of [] \<Rightarrow> [] | x # xs \<Rightarrow> x # ema_recurrence alpha x xs)"

text \<open>
  The dictionary returned by \<open>calculate_macd\<close>, with its keys \<open>'macd'\<close>,
  \<open>'signal'\<close> and \<open>'histogram'\<close>.
\<close>

record macd_data =
  md_macd :: "real list"
  md_signal :: "real list"
  md_histogram :: "real list"

definition calculate_macd :: "real list \<Rightarrow> real \<Rightarrow> real \<Rightarrow> real \<Rightarrow> error + macd_data" where
  "calculate_macd prices fast slow signal =
     bind_err (ewm_mean fast prices) (\<lambda>ema_fast.
     bind_err (ewm_mean slow prices) (\<lambda>ema_slow.
     let macd_line = map2 (\<lambda>a b. a - b) ema_fast ema_slow in
     bind_err (ewm_mean signal macd_line) (\<lambda>signal_line.
     let histogram = map2 (\<lambda>a b. a - b) macd_line signal_line in
     Inr \<lparr>md_macd = macd_line, md_signal = signal_line, md_histogram = histogram\<rparr>)))"

section \<open>Screening one stock\<close>

definition RSI_PERIOD :: nat where
  "RSI_PERIOD = 14"

definition MACD_FAST :: real where
  "MACD_FAST = 12"

definition MACD_SLOW :: real where
  "MACD_SLOW = 26"

definition MACD_SIGNAL :: real where
  "MACD_SIGNAL = 9"

text \<open>
  The MACD line and the signal line that \<open>calculate_macd\<close> returns for the three
  configured spans, which are all at least 1.
\<close>

definition macd_line_of :: "real list \<Rightarrow> real list" where
  "macd_line_of prices =
     map2 (\<lambda>a b. a - b) (ewm_values (2 / (MACD_FAST + 1)) prices)
       (ewm_values (2 / (MACD_SLOW + 1)) prices)"

definition signal_line_of :: "real list \<Rightarrow> real list" where
  "signal_line_of prices = ewm_values (2 / (MACD_SIGNAL + 1)) (macd_line_of prices)"

text \<open>One row of the OHLCV frame; only the two columns the screener reads.\<close>

record bar =
  Close :: real
  Volume :: real

type_synonym frame = "bar list"

text \<open>\<open>s.iloc[-1]\<close>: the last entry, an IndexError on an empty series.\<close>

definition iloc_last :: "'a list \<Rightarrow> error + 'a" where
  "iloc_last s = (if s = [] then Inl IndexError else Inr (last s))"

text \<open>
  A reason string. The two RSI reasons print the RSI value with one decimal; the value
  is kept instead of its rendering.
\<close>

datatype reason =
    RsiNeutralZone fl
  | RsiTradingZone fl
  | MacdHistogramPositive
  | MacdAboveSignalLine
  | PriceAboveSma20
  | PriceAboveSma50

record signals =
  ticker :: string
  price :: fl
  rsi :: fl
  macd :: fl
  signal_line :: fl
  histogram :: fl
  sma_20 :: fl
  sma_50 :: fl
  sma_200 :: fl
  volume :: fl
  avg_volume :: fl
  score :: nat
  reasons :: "reason list"

text \<open>
  The five \<open>if\<close> statements of the scoring block, each a step on the pair of the
  running score and the reasons collected so far.
\<close>

definition criterion1 :: "fl \<Rightarrow> nat \<times> reason list \<Rightarrow> nat \<times> reason list" where
  "criterion1 current_rsi st =
     (case st of (sc, rs) \<Rightarrow>
        if fl_less (Fin 30) current_rsi \<and> fl_less current_rsi (Fin 70) then
          (if fl_less (Fin 40) current_rsi \<and> fl_less current_rsi (Fin 60)
           then (sc + 1 + 1, rs @ [RsiNeutralZone current_rsi])
           else (sc + 1, rs @ [RsiTradingZone current_rsi]))
        else (sc, rs))"

definition criterion2 :: "fl \<Rightarrow> nat \<times> reason list \<Rightarrow> nat \<times> reason list" where
  "criterion2 current_histogram st =
     (case st of (sc, rs) \<Rightarrow>
        if fl_gt current_histogram (Fin 0) then (sc + 1, rs @ [MacdHistogramPositive])
        else (sc, rs))"

definition criterion3 :: "fl \<Rightarrow> fl \<Rightarrow> nat \<times> reason list \<Rightarrow> nat \<times> reason list" where
  "criterion3 current_macd current_signal st =
     (case st of (sc, rs) \<Rightarrow>
        if fl_gt current_macd current_signal then (sc + 1, rs @ [MacdAboveSignalLine])
        else (sc, rs))"

definition criterion4 :: "fl \<Rightarrow> fl \<Rightarrow> nat \<times> reason list \<Rightarrow> nat \<times> reason list" where
  "criterion4 current_price current_sma_20 st =
     (case st of (sc, rs) \<Rightarrow>
        if fl_gt current_price current_sma_20 then (sc + 1, rs @ [PriceAboveSma20])
        else (sc, rs))"

definition criterion5 :: "fl \<Rightarrow> fl \<Rightarrow> nat \<times> reason list \<Rightarrow> nat \<times> reason list" where
  "criterion5 current_price current_sma_50 st =
     (case st of (sc, rs) \<Rightarrow>
        if fl_gt current_price current_sma_50 then (sc + 1, rs @ [PriceAboveSma50])
        else (sc, rs))"

text \<open>
  The body of the \<open>try\<close> block: \<open>Inr None\<close> is the early \<open>return None\<close>, \<open>Inl\<close>
  an exception raised on the way.
\<close>

definition screen_body :: "string \<Rightarrow> frame \<Rightarrow> error + signals option" where
  "screen_body tk data =
     (if length data < RSI_PERIOD then Inr None
      else
        let close_prices = map Close data;
            rsi_s = calculate_rsi close_prices RSI_PERIOD
        in
        bind_err (calculate_macd close_prices MACD_FAST MACD_SLOW MACD_SIGNAL) (\<lambda>macd_d.
        let sma_20_s = rolling_mean 20 (map Fin close_prices);
            sma_50_s = rolling_mean 50 (map Fin close_prices);
            sma_200_s = rolling_mean 200 (map Fin close_prices)
        in
        bind_err (iloc_last close_prices) (\<lambda>current_price.
        bind_err (iloc_last rsi_s) (\<lambda>current_rsi.
        bind_err (iloc_last (md_macd macd_d)) (\<lambda>current_macd.
        bind_err (iloc_last (md_signal macd_d)) (\<lambda>current_signal.
        bind_err (iloc_last (md_histogram macd_d)) (\<lambda>current_histogram.
        bind_err (iloc_last sma_20_s) (\<lambda>current_sma_20.
        bind_err (iloc_last sma_50_s) (\<lambda>current_sma_50.
        bind_err (iloc_last sma_200_s) (\<lambda>current_sma_200.
        bind_err (iloc_last (rolling_mean 20 (map (\<lambda>b. Fin (Volume b)) data))) (\<lambda>avg_vol.
        bind_err (iloc_last (map Volume data)) (\<lambda>current_volume.
        let st = criterion5 (Fin current_price) current_sma_50
                  (criterion4 (Fin current_price) current_sma_20
                    (criterion3 (Fin current_macd) (Fin current_signal)
                      (criterion2 (Fin current_histogram)
                        (criterion1 current_rsi (0, [])))))
        in
        Inr (Some \<lparr>ticker = tk,
                   price = Fin current_price,
                   rsi = current_rsi,
                   macd = Fin current_macd,
                   signal_line = Fin current_signal,
                   histogram = Fin current_histogram,
                   sma_20 = current_sma_20,
                   sma_50 = current_sma_50,
                   sma_200 = current_sma_200,
                   volume = Fin current_volume,
                   avg_volume = avg_vol,
                   score = fst st,
                   reasons = snd st\<rparr>)))))))))))))"

text \<open>\<open>except Exception\<close>: the error is printed and the function returns \<open>None\<close>.\<close>

definition screen_stock :: "string \<Rightarrow> frame \<Rightarrow> signals option" where
  "screen_stock tk data = (case screen_body tk data of Inl e \<Rightarrow> None | Inr r \<Rightarrow> r)"

section \<open>Running the screener\<close>

definition INDONESIAN_STOCKS :: "string list" where
  "INDONESIAN_STOCKS =
     [''BBCA.JK'', ''BBRI.JK'', ''BMRI.JK'', ''INDF.JK'', ''TLKM.JK'',
      ''UNVR.JK'', ''GGRM.JK'', ''ASII.JK'', ''PGAS.JK'', ''ADRO.JK'']"

text \<open>
  \<open>fetch_stock_data\<close>: the download is the external service, given as a parameter
  that returns the frame or the exception raised. An empty frame and an exception both
  give \<open>None\<close>.
\<close>

definition fetch_stock_data :: "(string \<Rightarrow> error + frame) \<Rightarrow> string \<Rightarrow> frame option" where
  "fetch_stock_data download tk =
     (case download tk of
        Inl e \<Rightarrow> None
      | Inr data \<Rightarrow> if length data = 0 then None else Some data)"

text \<open>What the loop prints after the name of each ticker.\<close>

datatype outcome = FAILED_TO_FETCH_DATA | FAILED_TO_SCREEN | OK

text \<open>
  The \<open>for\<close> loop of \<open>run_screener\<close> over the tickers still to do, on the pair of the
  results collected and the lines printed so far.
\<close>

fun screen_each ::
  "(string \<Rightarrow> error + frame) \<Rightarrow> string list \<Rightarrow> signals list \<times> (string \<times> outcome) list
     \<Rightarrow> signals list \<times> (string \<times> outcome) list" where
  "screen_each download [] st = st"
| "screen_each download (tk # tks) (results, printed) =
     (case fetch_stock_data download tk of
        None \<Rightarrow> screen_each download tks (results, printed @ [(tk, FAILED_TO_FETCH_DATA)])
      | Some data \<Rightarrow>
          (case screen_stock tk data of
             None \<Rightarrow> screen_each download tks (results, printed @ [(tk, FAILED_TO_SCREEN)])
           | Some sig \<Rightarrow> screen_each download tks (results @ [sig], printed @ [(tk, OK)])))"

text \<open>
  \<open>list.sort(key=..., reverse=...)\<close> as CPython does it: a stable sort by the key, on
  the reversed list and reversed again when \<open>reverse\<close> is set.
\<close>

definition list_sort :: "('a \<Rightarrow> nat) \<Rightarrow> bool \<Rightarrow> 'a list \<Rightarrow> 'a list" where
  "list_sort key reverse xs =
     (if reverse then rev (sort_key key (rev xs)) else sort_key key xs)"

text \<open>
  \<open>run_screener\<close> up to the report: the sorted results, the lines printed by the loop
  and the strong candidates listed at the end.
\<close>

definition run_on ::
  "(string \<Rightarrow> error + frame) \<Rightarrow> string list
     \<Rightarrow> signals list \<times> (string \<times> outcome) list \<times> signals list" where
  "run_on download tks =
     (case screen_each download tks ([], []) of
        (results, printed) \<Rightarrow>
          let sorted_results = list_sort score True results
          in (sorted_results, printed, filter (\<lambda>r. 4 \<le> score r) sorted_results))"

definition run_screener ::
  "(string \<Rightarrow> error + frame) \<Rightarrow> signals list \<times> (string \<times> outcome) list \<times> signals list" where
  "run_screener download = run_on download INDONESIAN_STOCKS"

text \<open>A result with a given ticker and score and nothing else, for examples of the sort.\<close>

definition result_with :: "string \<Rightarrow> nat \<Rightarrow> signals" where
  "result_with tk sc =
     \<lparr>ticker = tk, price = NaN, rsi = NaN, macd = NaN, signal_line = NaN, histogram = NaN,
      sma_20 = NaN, sma_50 = NaN, sma_200 = NaN, volume = NaN, avg_volume = NaN,
      score = sc, reasons = []\<rparr>"

text \<open>
  An example frame: 48 days at 100, a rise to 112 and a fall back to 102, with a
  volume of 1 every day.
\<close>

definition rally_closes :: "real list" where
  "rally_closes = replicate 48 100 @ [112, 102]"

definition rally_frame :: frame where
  "rally_frame = map (\<lambda>c. \<lparr>Close = c, Volume = 1\<rparr>) rally_closes"

text \<open>
  The last two entries of the MACD line of the example, from the two loops as they
  stand after the 48 flat days.
\<close>

definition rally_macd_tail :: "real list" where
  "rally_macd_tail = map2 (\<lambda>a b. a - b)
       (ewm_loop (2 / 13) 100 (((\<lambda>v. v * (1 - 2 / 13) + 1) ^^ 47) 1) [112, 102])
       (ewm_loop (2 / 27) 100 (((\<lambda>v. v * (1 - 2 / 27) + 1) ^^ 47) 1) [112, 102])"

text \<open>The day-over-day changes of a price list as plain numbers, without the NaN in front.\<close>

fun moves :: "real list \<Rightarrow> real list" where
  "moves (x # y # zs) = (y - x) # moves (y # zs)"
| "moves _ = []"

section \<open>Lengths and positions of the series\<close>

lemma length_diff [simp]: "length (diff xs) = length xs"
  by (cases xs) simp_all

lemma length_series_where [simp]: "length (series_where c other s) = length s"
  by (simp add: series_where_def)

lemma length_rolling_mean [simp]: "length (rolling_mean w s) = length s"
  by (simp add: rolling_mean_def)

lemma nth_rolling_mean:
  "i < length s \<Longrightarrow> rolling_mean w s ! i =
     (if i + 1 < w then NaN else window_mean w (take w (drop (i + 1 - w) s)))"
  by (simp add: rolling_mean_def)

lemma length_rsi_gain [simp]: "length (rsi_gain prices period) = length prices"
  by (simp add: rsi_gain_def)

lemma length_rsi_loss [simp]: "length (rsi_loss prices period) = length prices"
  by (simp add: rsi_loss_def)

lemma length_calculate_rsi [simp]: "length (calculate_rsi prices period) = length prices"
  by (simp add: calculate_rsi_def)

lemma nth_calculate_rsi:
  "i < length prices \<Longrightarrow> calculate_rsi prices period ! i =
     fl_sub (Fin 100) (fl_div (Fin 100)
       (fl_add (Fin 1) (fl_div (rsi_gain prices period ! i) (rsi_loss prices period ! i))))"
  by (simp add: calculate_rsi_def)

lemma length_ewm_loop [simp]: "length (ewm_loop a w ow xs) = length xs"
  by (induction xs arbitrary: w ow) (simp_all add: Let_def)

lemma length_ewm_values [simp]: "length (ewm_values a s) = length s"
  by (cases s) (simp_all add: ewm_values_def)

lemma length_macd_line_of [simp]: "length (macd_line_of prices) = length prices"
  by (simp add: macd_line_of_def)

lemma length_signal_line_of [simp]: "length (signal_line_of prices) = length prices"
  by (simp add: signal_line_of_def)

lemma last_map2:
  assumes "length xs = length ys" and "xs \<noteq> []"
  shows "last (map2 f xs ys) = f (last xs) (last ys)"
proof -
  from assms have ne: "ys \<noteq> []" "zip xs ys \<noteq> []" by auto
  have "last (map2 f xs ys) = map2 f xs ys ! (length xs - 1)"
    using assms ne by (simp add: last_conv_nth)
  also have "\<dots> = f (xs ! (length xs - 1)) (ys ! (length xs - 1))"
    using assms by (cases xs) simp_all
  also have "\<dots> = f (last xs) (last ys)"
    using assms ne by (simp add: last_conv_nth)
  finally show ?thesis .
qed

lemma iloc_last_length: "0 < length s \<Longrightarrow> iloc_last s = Inr (last s)"
  by (auto simp: iloc_last_def)

section \<open>The RSI at the start of a series and on flat prices\<close>

lemma rsi_warm_up:
  assumes "i < length prices" and "i + 1 < period"
  shows "calculate_rsi prices period ! i = NaN"
  using assms
  by (simp add: nth_calculate_rsi rsi_gain_def rsi_loss_def nth_rolling_mean fl_sub_def)

text \<open>
  C3, amended. The difference series is undefined at index 0, and the RSI is undefined
  at the indices 0 to \<open>period - 2\<close>, the first \<open>period - 1\<close> of them: the gain and loss
  series hold 0 and not NaN at index 0, so the first full window ends at index
  \<open>period - 1\<close>.
\<close>

theorem rsi_undefined_before_first_window:
  assumes "prices \<noteq> []"
  shows "diff prices ! 0 = NaN \<and>
         (\<forall>i. i < length prices \<and> i + 1 < period \<longrightarrow> calculate_rsi prices period ! i = NaN)"
  using assms by (cases prices) (simp_all add: rsi_warm_up)

theorem rsi_undefined_before_first_window_witness:
  "[1, 2, 3 :: real] \<noteq> [] \<and> diff [1, 2, 3] ! 0 = NaN \<and>
   (1 :: nat) < length [1, 2, 3 :: real] \<and> (1 :: nat) + 1 < 3 \<and>
   calculate_rsi [1, 2, 3] 3 ! 1 = NaN"
  using rsi_undefined_before_first_window [of "[1, 2, 3]" 3] by simp

text \<open>
  The claim as stated fails: with period 2 the RSI of the prices 1, 2 is defined at
  index 1, which is among the first 2 indices.
\<close>

theorem rsi_defined_at_period_minus_one:
  "(1 :: nat) < 2 \<and> calculate_rsi [1, 2] 2 ! 1 = Fin 100 \<and> calculate_rsi [1, 2] 2 ! 1 \<noteq> NaN"
  by (simp add: calculate_rsi_def rsi_gain_def rsi_loss_def rolling_mean_def series_where_def
      window_mean_def fl_gt_def fl_sub_def upt_rec)

text \<open>
  C4. Where the rolling mean of the losses is zero and the rolling mean of the gains is
  positive, the RSI is exactly 100: the division gives an infinity, not an error, and
  100 divided by it is 0.
\<close>

theorem rsi_saturates_at_zero_loss:
  assumes "i < length prices"
    and "rsi_loss prices period ! i = Fin 0"
    and "rsi_gain prices period ! i = Fin g" and "0 < g"
  shows "calculate_rsi prices period ! i = Fin 100"
  using assms by (simp add: nth_calculate_rsi fl_sub_def)

theorem rsi_saturates_at_zero_loss_witness:
  "(1 :: nat) < length [1, 2 :: real] \<and> rsi_loss [1, 2] 2 ! 1 = Fin 0 \<and>
   rsi_gain [1, 2] 2 ! 1 = Fin (1 / 2) \<and> (0 :: real) < 1 / 2 \<and>
   calculate_rsi [1, 2] 2 ! 1 = Fin 100"
proof -
  have l: "rsi_loss [1, 2] 2 ! 1 = Fin 0"
    by (simp add: rsi_loss_def rolling_mean_def series_where_def window_mean_def upt_rec)
  have g: "rsi_gain [1, 2] 2 ! 1 = Fin (1 / 2)"
    by (simp add: rsi_gain_def rolling_mean_def series_where_def window_mean_def fl_gt_def upt_rec)
  have "calculate_rsi [1, 2] 2 ! 1 = Fin 100"
    by (rule rsi_saturates_at_zero_loss [OF _ l g]) simp_all
  with l g show ?thesis by simp
qed

lemma map2_replicate:
  "map2 f (x # replicate m x) (replicate m y) = replicate m (f x y)"
proof -
  have "map2 f (replicate (Suc m) x) (replicate m y) = replicate m (f x y)"
    by (simp only: zip_replicate map_replicate) simp
  then show ?thesis by simp
qed

lemma diff_replicate:
  "diff (replicate n c) = (case n of 0 \<Rightarrow> [] | Suc m \<Rightarrow> NaN # replicate m (Fin 0))"
  by (cases n) (simp_all add: map2_replicate)

lemma fin_sum_replicate_zero [simp]: "fin_sum (replicate k (Fin 0)) = Some 0"
  by (induction k) simp_all

lemma rsi_gain_replicate:
  "rsi_gain (replicate n c) period = rolling_mean period (replicate n (Fin 0))"
  by (simp add: rsi_gain_def diff_replicate series_where_def fl_gt_def split: nat.split)

lemma rsi_loss_replicate:
  "rsi_loss (replicate n c) period = rolling_mean period (replicate n (Fin 0))"
  by (simp add: rsi_loss_def diff_replicate series_where_def split: nat.split)

lemma rolling_mean_zero:
  assumes "i < n"
  shows "rolling_mean w (replicate n (Fin 0)) ! i = NaN \<or>
         rolling_mean w (replicate n (Fin 0)) ! i = Fin 0"
  using assms by (simp add: nth_rolling_mean window_mean_def)

lemma rsi_flat_prices:
  assumes "i < n"
  shows "calculate_rsi (replicate n c) period ! i = NaN"
proof -
  from rolling_mean_zero [OF assms, of period]
  show ?thesis
    using assms
    by (auto simp: nth_calculate_rsi rsi_gain_replicate rsi_loss_replicate fl_sub_def)
qed

text \<open>
  C5, amended. On a constant price sequence the RSI is undefined at every index, for
  every period: past the first window both rolling means are zero, zero divided by zero
  is NaN, and the code applies no convention to it.
\<close>

theorem rsi_constant_prices_undefined:
  assumes "i < n"
  shows "calculate_rsi (replicate n c) period ! i = NaN"
  using assms by (rule rsi_flat_prices)

theorem rsi_constant_prices_undefined_witness:
  "(15 :: nat) < 16 \<and> calculate_rsi (replicate 16 100) 14 ! 15 = NaN"
  using rsi_constant_prices_undefined [of 15 16 100 14] by simp

text \<open>
  The claim as stated fails: 16 equal prices and period 14 give no 50 at index 15.
\<close>

theorem rsi_constant_prices_not_50:
  "(14 :: nat) \<le> 15 \<and> (15 :: nat) < 16 \<and> calculate_rsi (replicate 16 100) 14 ! 15 \<noteq> Fin 50"
  using rsi_flat_prices [of 15 16 100 14] by simp

section \<open>The exponentially weighted mean\<close>

lemma wsum_replicate_pos: "0 \<le> q \<Longrightarrow> 0 < wsum q (replicate (Suc n) 1)"
proof (induction n)
  case 0
  show ?case by simp
next
  case (Suc n)
  then have "0 \<le> q * wsum q (replicate (Suc n) 1)" by (simp add: less_imp_le)
  then show ?case by simp
qed

text \<open>
  The invariant of the loop: after the entries \<open>p\<close>, \<open>old_wt\<close> is the sum of their
  weights and \<open>weighted\<close> their weighted sum divided by it.
\<close>

lemma ewm_loop_formula:
  assumes "0 \<le> 1 - a" and "p \<noteq> []" and "i < length xs"
  shows "ewm_loop a (wsum (1 - a) (rev p) / wsum (1 - a) (replicate (length p) 1))
            (wsum (1 - a) (replicate (length p) 1)) xs ! i
         = wsum (1 - a) (rev (p @ take (Suc i) xs)) /
             wsum (1 - a) (replicate (length p + Suc i) 1)"
  using assms(2,3)
proof (induction xs arbitrary: p i)
  case Nil
  then show ?case by simp
next
  case (Cons x xs)
  let ?q = "1 - a"
  let ?W = "wsum ?q (replicate (length p) 1)"
  from Cons.prems obtain m where m: "length p = Suc m" by (cases p) auto
  have W: "0 < ?W" unfolding m using assms(1) by (rule wsum_replicate_pos)
  have num: "?W * ?q * (wsum ?q (rev p) / ?W) + x = wsum ?q (rev (p @ [x]))"
    using W by (simp add: ac_simps)
  have w': "?W * ?q + 1 = wsum ?q (replicate (length (p @ [x])) 1)"
    by (simp add: mult.commute)
  have unfold: "ewm_loop a (wsum ?q (rev p) / ?W) ?W (x # xs) =
      (wsum ?q (rev (p @ [x])) / wsum ?q (replicate (length (p @ [x])) 1)) #
        ewm_loop a (wsum ?q (rev (p @ [x])) / wsum ?q (replicate (length (p @ [x])) 1))
          (wsum ?q (replicate (length (p @ [x])) 1)) xs"
    unfolding ewm_loop.simps Let_def w' num ..
  show ?case
  proof (cases i)
    case 0
    show ?thesis unfolding unfold 0 by simp
  next
    case (Suc j)
    with Cons.prems have j: "j < length xs" by simp
    have "ewm_loop a (wsum ?q (rev (p @ [x])) / wsum ?q (replicate (length (p @ [x])) 1))
            (wsum ?q (replicate (length (p @ [x])) 1)) xs ! j
          = wsum ?q (rev ((p @ [x]) @ take (Suc j) xs)) /
              wsum ?q (replicate (length (p @ [x]) + Suc j) 1)"
      by (rule Cons.IH) (use j in simp_all)
    then show ?thesis unfolding unfold Suc by simp
  qed
qed

lemma ewm_values_formula:
  assumes "0 \<le> 1 - a" and "i < length s"
  shows "ewm_values a s ! i = ewm_formula a s i"
proof (cases s)
  case Nil
  with assms show ?thesis by simp
next
  case (Cons x xs)
  show ?thesis
  proof (cases i)
    case 0
    then show ?thesis by (simp add: Cons ewm_values_def ewm_formula_def)
  next
    case (Suc j)
    with assms Cons have j: "j < length xs" by simp
    from ewm_loop_formula [OF assms(1) _ j, of "[x]"]
    show ?thesis by (simp add: Cons Suc ewm_values_def ewm_formula_def)
  qed
qed

text \<open>
  C2, amended. For every span of at least 1 the exponential mean has a value at every
  index, starts at the first input, and at index \<open>i\<close> is the weighted mean of the
  inputs up to \<open>i\<close>, the input \<open>k\<close> places back weighted by \<open>(1 - alpha)\<close> to the
  power \<open>k\<close>, with \<open>alpha = 2 / (span + 1)\<close>. It is the adjusted mean, not the
  recurrence of the unadjusted one.
\<close>

theorem exponential_mean_is_adjusted:
  assumes "1 \<le> spn"
  shows "\<exists>ema. ewm_mean spn s = Inr ema \<and> length ema = length s \<and>
           (s \<noteq> [] \<longrightarrow> ema ! 0 = s ! 0) \<and>
           (\<forall>i < length s. ema ! i = ewm_formula (2 / (spn + 1)) s i)"
proof -
  have q: "0 \<le> 1 - 2 / (spn + 1)" using assms by (simp add: field_simps)
  have z: "s \<noteq> [] \<longrightarrow> ewm_values (2 / (spn + 1)) s ! 0 = s ! 0"
    by (cases s) (simp_all add: ewm_values_def)
  show ?thesis
    using assms z by (simp add: ewm_mean_def ewm_values_formula [OF q])
qed

theorem exponential_mean_is_adjusted_witness:
  "(1 :: real) \<le> 3 \<and>
   (\<exists>ema. ewm_mean 3 [0, 1] = Inr ema \<and> length ema = length [0, 1 :: real] \<and>
      ([0, 1 :: real] \<noteq> [] \<longrightarrow> ema ! 0 = [0, 1] ! 0) \<and>
      (\<forall>i < length [0, 1 :: real]. ema ! i = ewm_formula (2 / (3 + 1)) [0, 1] i))"
  using exponential_mean_is_adjusted [of 3 "[0, 1]"] by simp

text \<open>
  The claim as stated fails: for span 3 and the inputs 0, 1 the code gives 2/3 at index
  1, the recurrence 1/2; and a span of 1/2 gives an error and no value at all.
\<close>

theorem exponential_mean_not_recurrence:
  "ewm_mean 3 [0, 1] = Inr [0, 2 / 3] \<and> unadjusted_mean (2 / (3 + 1)) [0, 1] = [0, 1 / 2] \<and>
   ewm_mean 3 [0, 1] \<noteq> Inr (unadjusted_mean (2 / (3 + 1)) [0, 1]) \<and>
   ewm_mean (1 / 2) [0, 1] = Inl ValueError"
  by (simp add: ewm_mean_def ewm_values_def unadjusted_mean_def Let_def)

section \<open>What \<open>screen_stock\<close> returns\<close>

lemma calculate_macd_configured:
  "calculate_macd prices MACD_FAST MACD_SLOW MACD_SIGNAL =
     Inr \<lparr>md_macd = macd_line_of prices, md_signal = signal_line_of prices,
          md_histogram = map2 (\<lambda>a b. a - b) (macd_line_of prices) (signal_line_of prices)\<rparr>"
  by (simp add: calculate_macd_def ewm_mean_def bind_err_def Let_def macd_line_of_def
      signal_line_of_def MACD_FAST_def MACD_SLOW_def MACD_SIGNAL_def)

lemma screen_stock_None: "length data < RSI_PERIOD \<Longrightarrow> screen_stock tk data = None"
  by (simp add: screen_stock_def screen_body_def)

text \<open>
  With at least \<open>RSI_PERIOD\<close> bars no step of the body raises, and the result holds the
  last entry of each series.
\<close>

lemma screen_stock_Some:
  assumes "RSI_PERIOD \<le> length data"
  shows "screen_stock tk data =
    Some \<lparr>ticker = tk,
          price = Fin (last (map Close data)),
          rsi = last (calculate_rsi (map Close data) RSI_PERIOD),
          macd = Fin (last (macd_line_of (map Close data))),
          signal_line = Fin (last (signal_line_of (map Close data))),
          histogram = Fin (last (macd_line_of (map Close data))
                           - last (signal_line_of (map Close data))),
          sma_20 = last (rolling_mean 20 (map Fin (map Close data))),
          sma_50 = last (rolling_mean 50 (map Fin (map Close data))),
          sma_200 = last (rolling_mean 200 (map Fin (map Close data))),
          volume = Fin (last (map Volume data)),
          avg_volume = last (rolling_mean 20 (map (\<lambda>b. Fin (Volume b)) data)),
          score = fst
            (criterion5 (Fin (last (map Close data)))
               (last (rolling_mean 50 (map Fin (map Close data))))
              (criterion4 (Fin (last (map Close data)))
                 (last (rolling_mean 20 (map Fin (map Close data))))
                (criterion3 (Fin (last (macd_line_of (map Close data))))
                   (Fin (last (signal_line_of (map Close data))))
                  (criterion2 (Fin (last (macd_line_of (map Close data))
                                    - last (signal_line_of (map Close data))))
                    (criterion1 (last (calculate_rsi (map Close data) RSI_PERIOD))
                       (0, [])))))),
          reasons = snd
            (criterion5 (Fin (last (map Close data)))
               (last (rolling_mean 50 (map Fin (map Close data))))
              (criterion4 (Fin (last (map Close data)))
                 (last (rolling_mean 20 (map Fin (map Close data))))
                (criterion3 (Fin (last (macd_line_of (map Close data))))
                   (Fin (last (signal_line_of (map Close data))))
                  (criterion2 (Fin (last (macd_line_of (map Close data))
                                    - last (signal_line_of (map Close data))))
                    (criterion1 (last (calculate_rsi (map Close data) RSI_PERIOD))
                       (0, []))))))\<rparr>"
proof -
  from assms have ne: "data \<noteq> []" by (cases data) (simp_all add: RSI_PERIOD_def)
  then have pos: "0 < length data" by simp
  have h: "last (map2 (\<lambda>a b. a - b) (macd_line_of (map Close data))
                (signal_line_of (map Close data)))
      = last (macd_line_of (map Close data)) - last (signal_line_of (map Close data))"
  proof (rule last_map2)
    show "length (macd_line_of (map Close data)) = length (signal_line_of (map Close data))"
      by simp
    have "length (macd_line_of (map Close data)) \<noteq> 0" using ne by simp
    then show "macd_line_of (map Close data) \<noteq> []" by (simp del: length_macd_line_of)
  qed
  show ?thesis
    unfolding screen_stock_def screen_body_def
    using assms pos
    by (simp add: calculate_macd_configured bind_err_def iloc_last_length h Let_def)
qed

lemma criterion_NaN [simp]:
  "criterion1 NaN st = st" "criterion4 p NaN st = st" "criterion5 p NaN st = st"
  by (cases st; simp add: criterion1_def criterion4_def criterion5_def fl_gt_def)+

text \<open>
  C10. In every result the histogram criterion and the signal-line criterion pass
  together or fail together, so the two add 0 or 2 to the score, never 1.
\<close>

theorem macd_criteria_pass_together:
  assumes "RSI_PERIOD \<le> length data"
  shows "\<exists>r. screen_stock tk data = Some r \<and>
           fl_gt (histogram r) (Fin 0) = fl_gt (macd r) (signal_line r) \<and>
           (\<forall>st. fst (criterion3 (macd r) (signal_line r) (criterion2 (histogram r) st)) = fst st \<or>
                 fst (criterion3 (macd r) (signal_line r) (criterion2 (histogram r) st))
                   = fst st + 2)"
  unfolding screen_stock_Some [OF assms]
  by (auto simp: criterion2_def criterion3_def fl_gt_def)

theorem macd_criteria_pass_together_witness:
  "RSI_PERIOD \<le> length (replicate 14 \<lparr>Close = 100, Volume = 1\<rparr>) \<and>
   (\<exists>r. screen_stock ''X'' (replicate 14 \<lparr>Close = 100, Volume = 1\<rparr>) = Some r \<and>
      fl_gt (histogram r) (Fin 0) = fl_gt (macd r) (signal_line r) \<and>
      (\<forall>st. fst (criterion3 (macd r) (signal_line r) (criterion2 (histogram r) st)) = fst st \<or>
            fst (criterion3 (macd r) (signal_line r) (criterion2 (histogram r) st))
              = fst st + 2))"
proof -
  have h: "RSI_PERIOD \<le> length (replicate 14 \<lparr>Close = 100, Volume = 1\<rparr>)"
    by (simp add: RSI_PERIOD_def)
  from h macd_criteria_pass_together [OF h, of "''X''"] show ?thesis by (rule conjI)
qed

section \<open>The loop over the tickers\<close>

lemma screen_each_append:
  "screen_each d (xs @ ys) st = screen_each d ys (screen_each d xs st)"
  by (induction d xs st rule: screen_each.induct) (auto split: option.splits)

lemma screen_each_results:
  "fst (screen_each d tks (res, p)) = fst (screen_each d tks (res, p'))"
  by (induction tks arbitrary: res p p') (auto split: option.splits)

lemma screen_each_printed: "set p \<subseteq> set (snd (screen_each d tks (res, p)))"
proof (induction tks arbitrary: res p)
  case Nil
  show ?case by simp
next
  case (Cons tk tks)
  show ?case
    using Cons.IH [of "p @ [(tk, FAILED_TO_FETCH_DATA)]" res]
      Cons.IH [of "p @ [(tk, FAILED_TO_SCREEN)]" res]
      Cons.IH [of "p @ [(tk, OK)]"]
    by (auto split: option.splits)
qed

lemma screen_each_skip:
  assumes "fetch_stock_data d tk = Some data" and "screen_stock tk data = None"
  shows "screen_each d (tk # tks) (res, p) =
         screen_each d tks (res, p @ [(tk, FAILED_TO_SCREEN)])"
  using assms by simp

lemma fst_run_on:
  "fst (run_on d tks) = list_sort score True (fst (screen_each d tks ([], [])))"
  by (simp add: run_on_def Let_def split: prod.splits)

lemma printed_run_on: "fst (snd (run_on d tks)) = snd (screen_each d tks ([], []))"
  by (simp add: run_on_def Let_def split: prod.splits)

text \<open>
  C8. A frame with fewer than \<open>RSI_PERIOD\<close> bars gives no result: \<open>screen_stock\<close>
  returns \<open>None\<close>, the loop prints FAILED TO SCREEN for the ticker and goes on with the
  tickers after it, and the run has the results it would have without that ticker.
\<close>

theorem short_frame_is_skipped:
  assumes "fetch_stock_data download tk = Some data" and "length data < RSI_PERIOD"
  shows "screen_stock tk data = None \<and>
         screen_each download (tk # rest) (results, printed) =
           screen_each download rest (results, printed @ [(tk, FAILED_TO_SCREEN)]) \<and>
         fst (run_on download (before @ tk # rest)) = fst (run_on download (before @ rest)) \<and>
         (tk, FAILED_TO_SCREEN) \<in> set (fst (snd (run_on download (before @ tk # rest))))"
proof -
  have n: "screen_stock tk data = None" using assms(2) by (rule screen_stock_None)
  obtain r0 p0 where st: "screen_each download before ([], []) = (r0, p0)"
    by (cases "screen_each download before ([], [])")
  have skip: "screen_each download (tk # rest) (r0, p0) =
      screen_each download rest (r0, p0 @ [(tk, FAILED_TO_SCREEN)])"
    using assms(1) n by (rule screen_each_skip)
  have a: "screen_each download (before @ tk # rest) ([], []) =
      screen_each download rest (r0, p0 @ [(tk, FAILED_TO_SCREEN)])"
    by (simp only: screen_each_append st skip)
  have b: "screen_each download (before @ rest) ([], []) = screen_each download rest (r0, p0)"
    by (simp only: screen_each_append st)
  have res: "fst (screen_each download (before @ tk # rest) ([], [])) =
      fst (screen_each download (before @ rest) ([], []))"
    unfolding a b by (rule screen_each_results)
  have pr: "(tk, FAILED_TO_SCREEN) \<in> set (snd (screen_each download (before @ tk # rest) ([], [])))"
    unfolding a
    using screen_each_printed [of "p0 @ [(tk, FAILED_TO_SCREEN)]" download rest r0] by auto
  have r: "fst (run_on download (before @ tk # rest)) = fst (run_on download (before @ rest))"
    using res by (simp add: fst_run_on)
  have q: "(tk, FAILED_TO_SCREEN) \<in> set (fst (snd (run_on download (before @ tk # rest))))"
    using pr by (simp add: printed_run_on)
  show ?thesis using n assms(1) r q by simp
qed

theorem short_frame_is_skipped_witness:
  "fetch_stock_data (\<lambda>tk. Inr [\<lparr>Close = 100, Volume = 1\<rparr>]) ''X''
     = Some [\<lparr>Close = 100, Volume = 1\<rparr>] \<and>
   length [\<lparr>Close = 100, Volume = 1\<rparr>] < RSI_PERIOD \<and>
   screen_stock ''X'' [\<lparr>Close = 100, Volume = 1\<rparr>] = None \<and>
   fst (run_on (\<lambda>tk. Inr [\<lparr>Close = 100, Volume = 1\<rparr>]) ([''W''] @ ''X'' # [''Y'']))
     = fst (run_on (\<lambda>tk. Inr [\<lparr>Close = 100, Volume = 1\<rparr>]) ([''W''] @ [''Y''])) \<and>
   (''X'', FAILED_TO_SCREEN)
     \<in> set (fst (snd (run_on (\<lambda>tk. Inr [\<lparr>Close = 100, Volume = 1\<rparr>]) ([''W''] @ ''X'' # [''Y'']))))"
proof -
  have f: "fetch_stock_data (\<lambda>tk. Inr [\<lparr>Close = 100, Volume = 1\<rparr>]) ''X''
      = Some [\<lparr>Close = 100, Volume = 1\<rparr>]"
    by (simp add: fetch_stock_data_def)
  have l: "length [\<lparr>Close = 100, Volume = 1\<rparr>] < RSI_PERIOD"
    by (simp add: RSI_PERIOD_def)
  from short_frame_is_skipped [OF f l, of "[''Y'']" "[]" "[]" "[''W'']"] f l
  show ?thesis by blast
qed

section \<open>The order of the results\<close>

lemma list_sort_desc_sorted: "sorted_wrt (\<lambda>a b. key b \<le> key a) (list_sort key True xs)"
proof -
  have "sorted (map key (sort_key key (rev xs)))" by (rule sorted_sort_key)
  then have "sorted_wrt (\<lambda>a b. key a \<le> key b) (sort_key key (rev xs))"
    by (simp add: sorted_map)
  then show ?thesis by (simp add: list_sort_def sorted_wrt_rev)
qed

lemma list_sort_mset: "mset (list_sort key rv xs) = mset xs"
  by (simp add: list_sort_def)

lemma list_sort_desc_stable:
  "filter (\<lambda>x. key x = k) (list_sort key True xs) = filter (\<lambda>x. key x = k) xs"
  by (simp add: list_sort_def rev_filter [symmetric] sort_key_stable)

text \<open>
  C9. The results of a run are the collected results in descending order of score, the
  results of each score in the order in which they were collected; the scores
  3, 5, 3, 4, 5 of A, B, C, D, E give the order B, E, D, A, C.
\<close>

theorem results_sorted_stably:
  "sorted_wrt (\<lambda>a b. score b \<le> score a) (fst (run_on download tks)) \<and>
   mset (fst (run_on download tks)) = mset (fst (screen_each download tks ([], []))) \<and>
   (\<forall>k. filter (\<lambda>r. score r = k) (fst (run_on download tks)) =
        filter (\<lambda>r. score r = k) (fst (screen_each download tks ([], [])))) \<and>
   map ticker (list_sort score True
      [result_with ''A'' 3, result_with ''B'' 5, result_with ''C'' 3, result_with ''D'' 4,
       result_with ''E'' 5])
     = [''B'', ''E'', ''D'', ''A'', ''C'']"
proof -
  have r: "fst (run_on download tks) =
      list_sort score True (fst (screen_each download tks ([], [])))"
    by (rule fst_run_on)
  have ex: "map ticker (list_sort score True
      [result_with ''A'' 3, result_with ''B'' 5, result_with ''C'' 3, result_with ''D'' 4,
       result_with ''E'' 5])
     = [''B'', ''E'', ''D'', ''A'', ''C'']"
    by (simp add: list_sort_def result_with_def)
  show ?thesis
    unfolding r using ex
    by (simp add: list_sort_desc_sorted list_sort_mset list_sort_desc_stable)
qed

section \<open>Comparisons with an undefined moving average\<close>

lemma last_rolling_mean:
  assumes "s \<noteq> []"
  shows "last (rolling_mean w s) =
         (if length s < w then NaN else window_mean w (drop (length s - w) s))"
proof -
  from assms have pos: "0 < length s" by simp
  then have "length (rolling_mean w s) \<noteq> 0" by simp
  then have "rolling_mean w s \<noteq> []" by (simp del: length_rolling_mean)
  then have "last (rolling_mean w s) = rolling_mean w s ! (length s - 1)"
    by (simp add: last_conv_nth)
  also have "\<dots> = (if length s - 1 + 1 < w then NaN
                    else window_mean w (take w (drop (length s - 1 + 1 - w) s)))"
    using pos by (intro nth_rolling_mean) simp
  also have "\<dots> = (if length s < w then NaN else window_mean w (drop (length s - w) s))"
    using pos by simp
  finally show ?thesis .
qed

lemma sma_undefined_when_short:
  assumes "s \<noteq> []" and "length s < w"
  shows "last (rolling_mean w s) = NaN"
  using assms by (simp add: last_rolling_mean)

lemma sma_reasons [simp]:
  "PriceAboveSma20 \<in> set (snd (criterion1 x st)) \<longleftrightarrow> PriceAboveSma20 \<in> set (snd st)"
  "PriceAboveSma20 \<in> set (snd (criterion2 h st)) \<longleftrightarrow> PriceAboveSma20 \<in> set (snd st)"
  "PriceAboveSma20 \<in> set (snd (criterion3 m s st)) \<longleftrightarrow> PriceAboveSma20 \<in> set (snd st)"
  "PriceAboveSma20 \<in> set (snd (criterion4 p a st)) \<longleftrightarrow>
     fl_gt p a \<or> PriceAboveSma20 \<in> set (snd st)"
  "PriceAboveSma20 \<in> set (snd (criterion5 p a st)) \<longleftrightarrow> PriceAboveSma20 \<in> set (snd st)"
  "PriceAboveSma50 \<in> set (snd (criterion1 x st)) \<longleftrightarrow> PriceAboveSma50 \<in> set (snd st)"
  "PriceAboveSma50 \<in> set (snd (criterion2 h st)) \<longleftrightarrow> PriceAboveSma50 \<in> set (snd st)"
  "PriceAboveSma50 \<in> set (snd (criterion3 m s st)) \<longleftrightarrow> PriceAboveSma50 \<in> set (snd st)"
  "PriceAboveSma50 \<in> set (snd (criterion4 p a st)) \<longleftrightarrow> PriceAboveSma50 \<in> set (snd st)"
  "PriceAboveSma50 \<in> set (snd (criterion5 p a st)) \<longleftrightarrow>
     fl_gt p a \<or> PriceAboveSma50 \<in> set (snd st)"
  by (cases st; simp add: criterion1_def criterion2_def criterion3_def criterion4_def
      criterion5_def)+

text \<open>
  C7. Whenever \<open>screen_stock\<close> gives a result, its score and reasons are those of the
  five criteria on the fields of the result, no error is raised, and a criterion whose
  moving average is undefined is false: it leaves score and reasons as they are, and its
  reason is not among the reasons. A moving average is undefined when the frame is
  shorter than its window.
\<close>

theorem undefined_comparator_awards_nothing:
  assumes "RSI_PERIOD \<le> length data"
  shows "\<exists>r. screen_stock tk data = Some r \<and>
     (score r, reasons r) =
        criterion5 (price r) (sma_50 r) (criterion4 (price r) (sma_20 r)
          (criterion3 (macd r) (signal_line r) (criterion2 (histogram r)
            (criterion1 (rsi r) (0, []))))) \<and>
     (sma_20 r = NaN \<longrightarrow> \<not> fl_gt (price r) (sma_20 r) \<and>
        (\<forall>st. criterion4 (price r) (sma_20 r) st = st) \<and> PriceAboveSma20 \<notin> set (reasons r)) \<and>
     (sma_50 r = NaN \<longrightarrow> \<not> fl_gt (price r) (sma_50 r) \<and>
        (\<forall>st. criterion5 (price r) (sma_50 r) st = st) \<and> PriceAboveSma50 \<notin> set (reasons r)) \<and>
     (length data < 20 \<longrightarrow> sma_20 r = NaN) \<and>
     (length data < 50 \<longrightarrow> sma_50 r = NaN) \<and>
     (length data < 200 \<longrightarrow> sma_200 r = NaN)"
proof -
  from assms have ne: "map Fin (map Close data) \<noteq> []"
    by (cases data) (simp_all add: RSI_PERIOD_def)
  have short: "\<And>w. length data < w \<Longrightarrow> last (rolling_mean w (map Fin (map Close data))) = NaN"
    using ne by (intro sma_undefined_when_short) simp_all
  show ?thesis
    unfolding screen_stock_Some [OF assms]
    using short [of 20] short [of 50] short [of 200] by (simp add: fl_gt_def)
qed

theorem undefined_comparator_awards_nothing_witness:
  "RSI_PERIOD \<le> length (replicate 14 \<lparr>Close = 100, Volume = 1\<rparr>) \<and>
   (\<exists>r. screen_stock ''X'' (replicate 14 \<lparr>Close = 100, Volume = 1\<rparr>) = Some r \<and>
      (sma_20 r = NaN \<longrightarrow> \<not> fl_gt (price r) (sma_20 r) \<and>
        (\<forall>st. criterion4 (price r) (sma_20 r) st = st) \<and> PriceAboveSma20 \<notin> set (reasons r)) \<and>
      (sma_50 r = NaN \<longrightarrow> \<not> fl_gt (price r) (sma_50 r) \<and>
        (\<forall>st. criterion5 (price r) (sma_50 r) st = st) \<and> PriceAboveSma50 \<notin> set (reasons r)) \<and>
      sma_20 r = NaN \<and> sma_50 r = NaN \<and> sma_200 r = NaN)"
proof -
  have h: "RSI_PERIOD \<le> length (replicate 14 \<lparr>Close = 100, Volume = 1\<rparr>)"
    by (simp add: RSI_PERIOD_def)
  from undefined_comparator_awards_nothing [OF h, of "''X''"] h show ?thesis
    by auto
qed

section \<open>A frame of exactly \<open>RSI_PERIOD\<close> bars\<close>

lemma map2_moves: "map2 (\<lambda>a b. Fin (b - a)) (x # xs) xs = map Fin (moves (x # xs))"
  by (induction xs arbitrary: x) simp_all

lemma diff_moves: "diff (x # xs) = NaN # map Fin (moves (x # xs))"
  by (simp only: diff.simps map2_moves)

lemma length_moves [simp]: "length (moves xs) = length xs - 1"
  by (induction xs rule: moves.induct) simp_all

lemma gain_series:
  "series_where (\<lambda>d. fl_gt d (Fin 0)) (Fin 0) (diff (x # xs))
     = map Fin (0 # map (\<lambda>d. max d 0) (moves (x # xs)))"
  unfolding diff_moves
  by (auto simp: series_where_def fl_gt_def max_def simp del: moves.simps)

lemma loss_series:
  "map fl_neg (series_where (\<lambda>d. fl_less d (Fin 0)) (Fin 0) (diff (x # xs)))
     = map Fin (0 # map (\<lambda>d. max (- d) 0) (moves (x # xs)))"
  unfolding diff_moves
  by (auto simp: series_where_def max_def simp del: moves.simps)

lemma fin_sum_map_Fin [simp]: "fin_sum (map Fin ys) = Some (sum_list ys)"
  by (induction ys) simp_all

lemma window_mean_map_Fin:
  "window_mean w (map Fin ys) = (if w = 0 \<or> length ys \<noteq> w then NaN else Fin (sum_list ys / real w))"
  by (simp add: window_mean_def)

lemma last_rsi_gain_full:
  "last (rsi_gain (x # xs) (length (x # xs)))
     = Fin (sum_list (map (\<lambda>d. max d 0) (moves (x # xs))) / real (length (x # xs)))"
  unfolding rsi_gain_def gain_series
  by (subst last_rolling_mean) (simp_all add: window_mean_map_Fin del: moves.simps list.map)

lemma last_rsi_loss_full:
  "last (rsi_loss (x # xs) (length (x # xs)))
     = Fin (sum_list (map (\<lambda>d. max (- d) 0) (moves (x # xs))) / real (length (x # xs)))"
  unfolding rsi_loss_def loss_series
  by (subst last_rolling_mean) (simp_all add: window_mean_map_Fin del: moves.simps list.map)

lemma nonempty_by_length: "length xs = length ys \<Longrightarrow> ys \<noteq> [] \<Longrightarrow> xs \<noteq> []"
  by auto

lemma last_calculate_rsi:
  assumes "prices \<noteq> []"
  shows "last (calculate_rsi prices period) =
     fl_sub (Fin 100) (fl_div (Fin 100)
       (fl_add (Fin 1) (fl_div (last (rsi_gain prices period)) (last (rsi_loss prices period)))))"
proof -
  from assms have pos: "length prices - 1 < length prices" by (cases prices) simp_all
  have ne: "calculate_rsi prices period \<noteq> []" "rsi_gain prices period \<noteq> []"
    "rsi_loss prices period \<noteq> []"
    by (rule nonempty_by_length [OF _ assms], simp)+
  show ?thesis
    using ne nth_calculate_rsi [OF pos, of period] by (simp add: last_conv_nth)
qed

lemma rsi_value_defined:
  assumes "0 \<le> u" and "0 \<le> d" and "0 < n"
  shows "fl_sub (Fin 100) (fl_div (Fin 100) (fl_add (Fin 1) (fl_div (Fin (u / n)) (Fin (d / n)))))
           \<noteq> NaN \<longleftrightarrow> u \<noteq> 0 \<or> d \<noteq> 0"
proof (cases "d = 0")
  case True
  show ?thesis
  proof (cases "u = 0")
    case True
    with \<open>d = 0\<close> show ?thesis by (simp add: fl_sub_def)
  next
    case False
    with assms have "0 < u / n" by simp
    with False \<open>d = 0\<close> show ?thesis by (simp add: fl_sub_def)
  qed
next
  case False
  with assms have "0 < d" by simp
  with assms have "0 \<le> u / n / (d / n)" by simp
  then have nz: "1 + u / n / (d / n) \<noteq> 0" by linarith
  from False assms have dn: "d / n \<noteq> 0" by simp
  have "fl_div (Fin (u / n)) (Fin (d / n)) = Fin (u / n / (d / n))"
    using dn by simp
  then show ?thesis using nz False by (simp add: fl_sub_def)
qed

lemma moves_zero_iff: "(\<forall>d \<in> set (moves xs). d = 0) \<longleftrightarrow> (\<forall>x \<in> set xs. x = hd xs)"
  by (induction xs rule: moves.induct) auto

lemma up_nonneg: "0 \<le> sum_list (map (\<lambda>d. max d 0) (ms :: real list))"
  by (rule sum_list_nonneg) auto

lemma down_nonneg: "0 \<le> sum_list (map (\<lambda>d. max (- d) 0) (ms :: real list))"
  by (rule sum_list_nonneg) auto

lemma up_down_zero_iff:
  "sum_list (map (\<lambda>d. max d 0) ms) = 0 \<and> sum_list (map (\<lambda>d. max (- d) 0) ms) = 0
     \<longleftrightarrow> (\<forall>d \<in> set (ms :: real list). d = 0)"
proof (induction ms)
  case Nil
  show ?case by simp
next
  case (Cons m ms)
  have a: "0 \<le> max m 0" "0 \<le> max (- m) 0" by simp_all
  have "max m 0 + sum_list (map (\<lambda>d. max d 0) ms) = 0 \<longleftrightarrow>
        max m 0 = 0 \<and> sum_list (map (\<lambda>d. max d 0) ms) = 0"
    using a(1) up_nonneg [of ms] by linarith
  moreover have "max (- m) 0 + sum_list (map (\<lambda>d. max (- d) 0) ms) = 0 \<longleftrightarrow>
        max (- m) 0 = 0 \<and> sum_list (map (\<lambda>d. max (- d) 0) ms) = 0"
    using a(2) down_nonneg [of ms] by linarith
  moreover have "max m 0 = 0 \<and> max (- m) 0 = 0 \<longleftrightarrow> m = 0" by (auto simp: max_def)
  ultimately show ?case using Cons.IH by auto
qed

lemma rsi_full_window_defined:
  assumes "prices \<noteq> []"
  shows "last (calculate_rsi prices (length prices)) \<noteq> NaN \<longleftrightarrow> (\<exists>x \<in> set prices. x \<noteq> hd prices)"
proof -
  from assms obtain x xs where p: "prices = x # xs" by (cases prices) auto
  let ?u = "sum_list (map (\<lambda>d. max d 0) (moves prices))"
  let ?d = "sum_list (map (\<lambda>d. max (- d) 0) (moves prices))"
  have n: "0 < real (length prices)" using assms by simp
  have "last (calculate_rsi prices (length prices)) \<noteq> NaN \<longleftrightarrow> ?u \<noteq> 0 \<or> ?d \<noteq> 0"
    unfolding last_calculate_rsi [OF assms]
    unfolding p last_rsi_gain_full last_rsi_loss_full
    unfolding p [symmetric]
    by (rule rsi_value_defined [OF up_nonneg down_nonneg n])
  also have "\<dots> \<longleftrightarrow> \<not> (\<forall>d \<in> set (moves prices). d = 0)"
    using up_down_zero_iff [of "moves prices"] by blast
  also have "\<dots> \<longleftrightarrow> (\<exists>x \<in> set prices. x \<noteq> hd prices)"
    by (simp add: moves_zero_iff)
  finally show ?thesis .
qed

text \<open>
  C6, amended. A frame of exactly \<open>RSI_PERIOD\<close> bars is screened: the result has no
  20-, 50- or 200-day average, the two SMA criteria add nothing to the score or the
  reasons, and no error is raised. Its RSI is defined exactly when not all closing
  prices are equal; on 14 equal closes it is NaN.
\<close>

theorem fourteen_bars_screened:
  assumes "length data = RSI_PERIOD"
  shows "\<exists>r. screen_stock tk data = Some r \<and>
     sma_20 r = NaN \<and> sma_50 r = NaN \<and> sma_200 r = NaN \<and>
     (score r, reasons r) =
        criterion3 (macd r) (signal_line r) (criterion2 (histogram r) (criterion1 (rsi r) (0, []))) \<and>
     (rsi r \<noteq> NaN \<longleftrightarrow> (\<exists>b \<in> set data. Close b \<noteq> Close (hd data)))"
proof -
  from assms have len: "RSI_PERIOD \<le> length data" by simp
  from assms have ne: "data \<noteq> []" by (cases data) (simp_all add: RSI_PERIOD_def)
  then have ne': "map Fin (map Close data) \<noteq> []" "map Close data \<noteq> []" by simp_all
  have short: "\<And>w. length data < w \<Longrightarrow> last (rolling_mean w (map Fin (map Close data))) = NaN"
    using ne' by (intro sma_undefined_when_short) simp_all
  have r: "last (calculate_rsi (map Close data) RSI_PERIOD) \<noteq> NaN \<longleftrightarrow>
      (\<exists>b \<in> set data. Close b \<noteq> Close (hd data))"
    using rsi_full_window_defined [OF ne'(2)] ne assms by (simp add: hd_map)
  have l: "length data < 20" "length data < 50" "length data < 200"
    using assms by (simp_all add: RSI_PERIOD_def)
  show ?thesis
    unfolding screen_stock_Some [OF len]
    using short [OF l(1)] short [OF l(2)] short [OF l(3)] r by simp
qed

theorem fourteen_bars_screened_witness:
  "length (replicate 13 \<lparr>Close = 100, Volume = 1\<rparr> @ [\<lparr>Close = 101, Volume = 1\<rparr>]) = RSI_PERIOD \<and>
   (\<exists>r. screen_stock ''X''
          (replicate 13 \<lparr>Close = 100, Volume = 1\<rparr> @ [\<lparr>Close = 101, Volume = 1\<rparr>]) = Some r \<and>
      sma_20 r = NaN \<and> sma_50 r = NaN \<and> sma_200 r = NaN \<and> rsi r \<noteq> NaN)"
proof -
  have h: "length (replicate 13 \<lparr>Close = 100, Volume = 1\<rparr> @ [\<lparr>Close = 101, Volume = 1\<rparr>])
      = RSI_PERIOD"
    by (simp add: RSI_PERIOD_def)
  from fourteen_bars_screened [OF h, of "''X''"] h show ?thesis
    by auto
qed

lemma flat_frame_rsi:
  "map_option rsi (screen_stock tk (replicate 14 \<lparr>Close = c, Volume = v\<rparr>)) = Some NaN"
proof -
  have len: "RSI_PERIOD \<le> length (replicate 14 \<lparr>Close = c, Volume = v\<rparr>)"
    by (simp add: RSI_PERIOD_def)
  have "last (calculate_rsi (replicate 14 c) 14) = calculate_rsi (replicate 14 c) 14 ! 13"
    by (subst last_conv_nth) (simp_all add: nonempty_by_length [of _ "replicate 14 c"])
  also have "\<dots> = NaN" by (rule rsi_flat_prices) simp
  finally show ?thesis
    unfolding screen_stock_Some [OF len] by (simp add: RSI_PERIOD_def)
qed

text \<open>
  The claim as stated fails: 14 bars with the same close are screened, and the latest RSI
  of the result is NaN.
\<close>

theorem fourteen_flat_bars_rsi_undefined:
  "length (replicate 14 \<lparr>Close = 100, Volume = 1\<rparr>) = RSI_PERIOD \<and>
   map_option rsi (screen_stock ''X'' (replicate 14 \<lparr>Close = 100, Volume = 1\<rparr>)) = Some NaN"
  by (simp add: flat_frame_rsi RSI_PERIOD_def)

section \<open>The range of the score\<close>

text \<open>
  While the prices stay at their first value, the exponential mean stays there too and
  only the total weight grows.
\<close>

lemma ewm_loop_const:
  assumes "0 \<le> 1 - a" and "0 \<le> w"
  shows "ewm_loop a c w (replicate n c @ rest) =
         replicate n c @ ewm_loop a c (((\<lambda>v. v * (1 - a) + 1) ^^ n) w) rest"
  using assms(2)
proof (induction n arbitrary: w)
  case 0
  show ?case by simp
next
  case (Suc n)
  let ?ow = "w * (1 - a)"
  from Suc.prems assms(1) have ow: "0 \<le> ?ow" by simp
  then have nz: "?ow + 1 \<noteq> 0" by linarith
  have c: "(?ow * c + c) / (?ow + 1) = c"
  proof -
    have "?ow * c + c = c * (?ow + 1)" by (simp add: algebra_simps)
    then show ?thesis using nz by simp
  qed
  have "0 \<le> ?ow + 1" using ow by simp
  from Suc.IH [OF this] show ?case
    by (simp only: replicate_Suc append_Cons ewm_loop.simps Let_def c funpow_Suc_right o_apply)
qed

lemma ewm_values_flat_start:
  assumes "0 \<le> 1 - a"
  shows "ewm_values a (replicate 48 c @ rest) =
     replicate 48 c @ ewm_loop a c (((\<lambda>v. v * (1 - a) + 1) ^^ 47) 1) rest"
proof -
  have r: "replicate 48 c = c # replicate 47 c"
    by (simp only: replicate_Suc [symmetric]) simp
  have "ewm_values a (replicate 48 c @ rest) = c # ewm_loop a c 1 (replicate 47 c @ rest)"
    by (simp only: r ewm_values_def append_Cons list.case)
  also have "\<dots> = c # replicate 47 c @ ewm_loop a c (((\<lambda>v. v * (1 - a) + 1) ^^ 47) 1) rest"
    using assms by (simp only: ewm_loop_const)
  finally show ?thesis by (simp only: r append_Cons)
qed

lemma macd_line_rally: "macd_line_of rally_closes = replicate 48 0 @ rally_macd_tail"
proof -
  have f: "ewm_values (2 / (MACD_FAST + 1)) rally_closes = replicate 48 100 @
      ewm_loop (2 / 13) 100 (((\<lambda>v. v * (1 - 2 / 13) + 1) ^^ 47) 1) [112, 102]"
    unfolding rally_closes_def using ewm_values_flat_start [of "2 / 13"]
    by (simp add: MACD_FAST_def)
  have s: "ewm_values (2 / (MACD_SLOW + 1)) rally_closes = replicate 48 100 @
      ewm_loop (2 / 27) 100 (((\<lambda>v. v * (1 - 2 / 27) + 1) ^^ 47) 1) [112, 102]"
    unfolding rally_closes_def using ewm_values_flat_start [of "2 / 27"]
    by (simp add: MACD_SLOW_def)
  show ?thesis
    unfolding macd_line_of_def f s rally_macd_tail_def
    by (simp add: map_replicate_const del: ewm_loop.simps)
qed

lemma signal_line_rally:
  "signal_line_of rally_closes = replicate 48 0 @
     ewm_loop (1 / 5) 0 (((\<lambda>v. v * (1 - 1 / 5) + 1) ^^ 47) 1) rally_macd_tail"
  unfolding signal_line_of_def macd_line_rally
  using ewm_values_flat_start [of "1 / 5" 0 rally_macd_tail]
  by (simp add: MACD_SIGNAL_def)

lemma rally_macd_above_signal:
  "last (signal_line_of rally_closes) < last (macd_line_of rally_closes)"
  unfolding signal_line_rally macd_line_rally rally_macd_tail_def
  by (simp add: eval_nat_numeral Let_def)

lemma rally_closes_nonempty: "rally_closes \<noteq> []"
  by (simp add: rally_closes_def)

lemma rally_rsi: "last (calculate_rsi rally_closes RSI_PERIOD) = Fin (600 / 11)"
  unfolding last_calculate_rsi [OF rally_closes_nonempty]
  by (simp add: rally_closes_def rsi_gain_def rsi_loss_def last_rolling_mean RSI_PERIOD_def
      series_where_def window_mean_def fl_gt_def fl_sub_def eval_nat_numeral)

lemma rally_sma_20: "last (rolling_mean 20 (map Fin rally_closes)) = Fin (1007 / 10)"
  by (simp add: rally_closes_def last_rolling_mean window_mean_def eval_nat_numeral)

lemma rally_sma_50: "last (rolling_mean 50 (map Fin rally_closes)) = Fin (2507 / 25)"
  by (simp add: rally_closes_def last_rolling_mean window_mean_def eval_nat_numeral)

lemma rally_last_close: "last rally_closes = 102"
  by (simp add: rally_closes_def)

text \<open>
  C1, which the code breaks. The scoring block is commented as a system of 0 to 5
  points and the report prints the score out of 5, but the RSI criterion adds 2 in the
  neutral zone and the four others 1 each: the example frame gets 6.
\<close>

theorem score_can_be_six:
  "map_option score (screen_stock ''X'' rally_frame) = Some 6 \<and>
   map_option reasons (screen_stock ''X'' rally_frame) =
     Some [RsiNeutralZone (Fin (600 / 11)), MacdHistogramPositive, MacdAboveSignalLine,
           PriceAboveSma20, PriceAboveSma50]"
proof -
  have len: "RSI_PERIOD \<le> length rally_frame"
    by (simp add: rally_frame_def rally_closes_def RSI_PERIOD_def)
  have closes: "map Close rally_frame = rally_closes"
    by (simp add: rally_frame_def comp_def)
  show ?thesis
    unfolding screen_stock_Some [OF len] closes
    using rally_macd_above_signal
    by (simp add: rally_rsi rally_sma_20 rally_sma_50 rally_last_close
        criterion1_def criterion2_def criterion3_def criterion4_def criterion5_def fl_gt_def)
qed


end
